theory Spec2Isabelle
  imports Main
begin

section \<open>Data model of the donation cart\<close>

text \<open>
  The line entries of a donation. The source declares two shapes,
  \<^verbatim>\<open>{type, quantity, images}\<close> for clothing items and
  \<^verbatim>\<open>{name, quantity, images}\<close> for toy items; they differ only in the name of the
  first field, which is \<open>label\<close> here. Quantities are the integer quantities of the
  data model. The projections guard \<^verbatim>\<open>item.images\<close> against being absent, so the
  image list is optional.
\<close>

record line_item =
  label :: string
  quantity :: int
  images :: "string list option"

text \<open>
  \<^verbatim>\<open>DonationItem\<close>. The field \<^verbatim>\<open>_id\<close> is \<open>donation_id\<close>. The kind and the status
  are the strings the server sends; the optional fields are options.
\<close>

record DonationItem =
  donation_id :: string
  donationType :: string
  status :: string
  createdAt :: string
  clothingItems :: "line_item list option"
  toyItems :: "line_item list option"
  pickupDate :: "string option"

text \<open>
  The requests the component issues: \<^verbatim>\<open>api.get(`/donations/user/${userId}`)\<close> and
  \<^verbatim>\<open>api.delete(`/donation/${donationId}`)\<close>.
\<close>

datatype request = GetDonations string | DeleteDonation string

text \<open>
  The function that \<^verbatim>\<open>handleDeleteDonation\<close> hands to \<^verbatim>\<open>setAlertCallback\<close>: a closure
  over \<^verbatim>\<open>donationId\<close> and over the \<^verbatim>\<open>donations\<close> of the render that created it.
\<close>

datatype callback = DeleteCallback string "DonationItem list"

text \<open>
  What \<^verbatim>\<open>alertCallback\<close> can hold when it is not \<^verbatim>\<open>undefined\<close>: a function, which
  is what its type declares, or the promise an async function returns.
\<close>

datatype stored = Function callback | Promise

text \<open>
  The component's state variables (\<^verbatim>\<open>useState\<close>), followed by what it can observe of
  its surroundings: the item \<^verbatim>\<open>donationCartNeedsRefresh\<close> of the storage (absent is
  \<open>None\<close>), the requests issued so far and the values written to that item so far.
\<close>

record cart =
  donations :: "DonationItem list"
  isLoading :: bool
  error :: string
  alertVisible :: bool
  alertTitle :: string
  alertMessage :: string
  alertCallback :: "stored option"
  needsRefresh :: "string option"
  requests :: "request list"
  storageWrites :: "string list"

text \<open>The state of a freshly mounted component, before its first load.\<close>

definition initial_cart :: cart where
  "initial_cart =
     \<lparr>donations = [], isLoading = True, error = '''',
      alertVisible = False, alertTitle = '''', alertMessage = '''', alertCallback = None,
      needsRefresh = None, requests = [], storageWrites = []\<rparr>"

section \<open>Loading the donations\<close>

text \<open>
  What \<^verbatim>\<open>await api.get(...)\<close> yields: it throws, or gives a falsy value, or an object,
  of which the code reads the truthiness of \<^verbatim>\<open>success\<close> and whether \<^verbatim>\<open>donations\<close> is
  an array.
\<close>

datatype donations_field = NotArray | IsArray "DonationItem list"

datatype get_result = GetThrows | GetFalsy | GetObject bool donations_field

text \<open>\<^verbatim>\<open>Array.isArray(response.donations)\<close>, and the array it then holds.\<close>

fun isArray :: "donations_field \<Rightarrow> bool" where
  "isArray (IsArray ds) = True"
| "isArray NotArray = False"

fun elements :: "donations_field \<Rightarrow> DonationItem list" where
  "elements (IsArray ds) = ds"
| "elements NotArray = []"

text \<open>The one message \<^verbatim>\<open>setError\<close> is ever given, apart from the empty string.\<close>

definition LoadFailed :: string where
  "LoadFailed = ''Failed to load donations''"

text \<open>\<^verbatim>\<open>fetchDonations\<close> up to its \<^verbatim>\<open>await\<close>: the request is on its way.\<close>

definition fetchDonations_begin :: "string \<Rightarrow> cart \<Rightarrow> cart" where
  "fetchDonations_begin userId c =
     c\<lparr>isLoading := True, error := '''', requests := requests c @ [GetDonations userId]\<rparr>"

text \<open>
  \<^verbatim>\<open>fetchDonations\<close> from its \<^verbatim>\<open>await\<close> on: the branches of \<^verbatim>\<open>try\<close> and \<^verbatim>\<open>catch\<close>,
  then \<^verbatim>\<open>finally\<close>. In the \<^verbatim>\<open>else\<close> branch the cache is emptied, and the error is set
  only under the inner test \<^verbatim>\<open>!response || !response.success\<close>.
\<close>

definition fetchDonations_settle :: "get_result \<Rightarrow> cart \<Rightarrow> cart" where
  "fetchDonations_settle r c =
     (let c' =
        (case r of
           GetThrows \<Rightarrow> c\<lparr>error := LoadFailed, donations := []\<rparr>
         | GetFalsy \<Rightarrow> c\<lparr>donations := [], error := LoadFailed\<rparr>
         | GetObject success field \<Rightarrow>
             if success \<and> isArray field then c\<lparr>donations := elements field\<rparr>
             else if success then c\<lparr>donations := []\<rparr>
             else c\<lparr>donations := [], error := LoadFailed\<rparr>)
      in c'\<lparr>isLoading := False\<rparr>)"

text \<open>A load that runs to its end with nothing in between.\<close>

definition fetchDonations :: "string \<Rightarrow> get_result \<Rightarrow> cart \<Rightarrow> cart" where
  "fetchDonations userId r c = fetchDonations_settle r (fetchDonations_begin userId c)"

section \<open>Polling the refresh flag\<close>

text \<open>
  \<^verbatim>\<open>checkForRefresh\<close>, one tick of the interval. \<open>readOk\<close> and \<open>writeOk\<close> say whether
  \<^verbatim>\<open>AsyncStorage.getItem\<close> and \<^verbatim>\<open>AsyncStorage.setItem\<close> succeed; when one throws, the
  \<^verbatim>\<open>catch\<close> only logs. \<^verbatim>\<open>fetchDonations()\<close> is called without \<^verbatim>\<open>await\<close>, so only its
  part before its own \<^verbatim>\<open>await\<close> runs here, and the write follows at once.
\<close>

definition checkForRefresh :: "string \<Rightarrow> bool \<Rightarrow> bool \<Rightarrow> cart \<Rightarrow> cart" where
  "checkForRefresh userId readOk writeOk c =
     (if readOk then
        if needsRefresh c = Some ''true'' then
          let c' = fetchDonations_begin userId c in
          if writeOk
          then c'\<lparr>needsRefresh := Some ''false'',
                  storageWrites := storageWrites c' @ [''false'']\<rparr>
          else c'
        else c
      else c)"

section \<open>Projections of one record\<close>

text \<open>
  \<^verbatim>\<open>getItemCount\<close>: \<^verbatim>\<open>reduce((total, item) => total + item.quantity, 0)\<close> over the list
  of the record's kind, when that list is there.
\<close>

definition getItemCount :: "DonationItem \<Rightarrow> int" where
  "getItemCount donation =
     (if donationType donation = ''clothes'' \<and> clothingItems donation \<noteq> None
      then foldl (\<lambda>total item. total + quantity item) 0 (the (clothingItems donation))
      else if donationType donation = ''toys'' \<and> toyItems donation \<noteq> None
      then foldl (\<lambda>total item. total + quantity item) 0 (the (toyItems donation))
      else 0)"

text \<open>
  The body of the \<^verbatim>\<open>forEach\<close> of \<^verbatim>\<open>getAllImages\<close>: the list built so far, with the
  item's images appended when it has some.
\<close>

definition addImages :: "string list \<Rightarrow> line_item \<Rightarrow> string list" where
  "addImages imgs item =
     (case images item of
        None \<Rightarrow> imgs
      | Some xs \<Rightarrow> if length xs > 0 then imgs @ xs else imgs)"

definition getAllImages :: "DonationItem \<Rightarrow> string list" where
  "getAllImages donation =
     (if donationType donation = ''clothes'' \<and> clothingItems donation \<noteq> None
      then foldl addImages [] (the (clothingItems donation))
      else if donationType donation = ''toys'' \<and> toyItems donation \<noteq> None
      then foldl addImages [] (the (toyItems donation))
      else [])"

text \<open>
  The specification's side of the projections. Its data model gives a record one
  sequence \<open>items\<close>, the line entries of the record's kind, each with a quantity and
  zero or more images.
\<close>

definition spec_items :: "DonationItem \<Rightarrow> line_item list" where
  "spec_items donation =
     (if donationType donation = ''clothes'' then
        (case clothingItems donation of None \<Rightarrow> [] | Some its \<Rightarrow> its)
      else if donationType donation = ''toys'' then
        (case toyItems donation of None \<Rightarrow> [] | Some its \<Rightarrow> its)
      else [])"

definition spec_images :: "line_item \<Rightarrow> string list" where
  "spec_images item = (case images item of None \<Rightarrow> [] | Some xs \<Rightarrow> xs)"

section \<open>Deleting a donation behind a confirmation\<close>

text \<open>
  What \<^verbatim>\<open>await api.delete(...)\<close> yields, and the test \<^verbatim>\<open>response && response.success\<close>.
\<close>

datatype delete_result = DeleteThrows | DeleteFalsy | DeleteObject bool

fun acknowledged :: "delete_result \<Rightarrow> bool" where
  "acknowledged (DeleteObject success) = success"
| "acknowledged DeleteFalsy = False"
| "acknowledged DeleteThrows = False"

text \<open>
  The async function of \<^verbatim>\<open>handleDeleteDonation\<close> up to its \<^verbatim>\<open>await\<close>: loading is set
  and the delete request is on its way.
\<close>

fun callback_request :: "callback \<Rightarrow> request" where
  "callback_request (DeleteCallback donationId ds) = DeleteDonation donationId"

definition callback_begin :: "callback \<Rightarrow> cart \<Rightarrow> cart" where
  "callback_begin cb c = c\<lparr>isLoading := True, requests := requests c @ [callback_request cb]\<rparr>"

text \<open>
  The async function from its \<^verbatim>\<open>await\<close> on. A response that is not acknowledged
  throws into the same \<^verbatim>\<open>catch\<close> as a failed request. The filter runs over the
  \<^verbatim>\<open>donations\<close> the closure holds.
\<close>

fun callback_settle :: "callback \<Rightarrow> delete_result \<Rightarrow> cart \<Rightarrow> cart" where
  "callback_settle (DeleteCallback donationId ds) r c =
     (let c' =
        (if acknowledged r then
           c\<lparr>donations := filter (\<lambda>donation. donation_id donation \<noteq> donationId) ds,
             alertTitle := ''Success'',
             alertMessage := ''Donation has been deleted successfully.'',
             alertCallback := None,
             alertVisible := True\<rparr>
         else
           c\<lparr>alertTitle := ''Error'',
             alertMessage := ''Failed to delete donation. Please try again.'',
             alertCallback := None,
             alertVisible := True\<rparr>)
      in c'\<lparr>isLoading := False\<rparr>)"

text \<open>
  The async function made from the current cache and run to its end with nothing in
  between: the delete of the record \<open>donationId\<close>.
\<close>

definition deleteRecord :: "string \<Rightarrow> delete_result \<Rightarrow> cart \<Rightarrow> cart" where
  "deleteRecord donationId r c =
     callback_settle (DeleteCallback donationId (donations c)) r
       (callback_begin (DeleteCallback donationId (donations c)) c)"

text \<open>
  \<^verbatim>\<open>handleDeleteDonation\<close>: the prompt is filled and shown, and the async function is
  handed to \<^verbatim>\<open>setAlertCallback\<close>. A setter of \<^verbatim>\<open>useState\<close> that is given a function
  takes it for an updater: React calls it with the previous state and stores what it
  returns. So the async function runs here, up to its \<^verbatim>\<open>await\<close>, and what is stored
  is the promise it returns, not the function.
\<close>

definition handleDeleteDonation :: "string \<Rightarrow> cart \<Rightarrow> cart" where
  "handleDeleteDonation donationId c =
     (let c' = c\<lparr>alertTitle := ''Confirm Deletion'',
                  alertMessage := ''Are you sure you want to delete this donation?'',
                  alertVisible := True\<rparr>
      in (callback_begin (DeleteCallback donationId (donations c)) c')
           \<lparr>alertCallback := Some Promise\<rparr>)"

text \<open>
  The \<^verbatim>\<open>onClose\<close> given to the alert: hide it, then \<^verbatim>\<open>if (alertCallback) alertCallback()\<close>.
  A stored function is called, without \<^verbatim>\<open>await\<close>, so it runs up to its own
  \<^verbatim>\<open>await\<close>. A stored promise is truthy and is not callable: the call raises a
  \<^verbatim>\<open>TypeError\<close>, after the alert was hidden. The result is what was raised, if
  anything, and the state.
\<close>

datatype js_error = TypeError

definition onClose :: "cart \<Rightarrow> js_error option \<times> cart" where
  "onClose c =
     (let c' = c\<lparr>alertVisible := False\<rparr> in
      case alertCallback c of
        None \<Rightarrow> (None, c')
      | Some (Function cb) \<Rightarrow> (None, callback_begin cb c')
      | Some Promise \<Rightarrow> (Some TypeError, c'))"

text \<open>Whether \<^verbatim>\<open>alertCallback\<close> holds a function.\<close>

fun holds_function :: "stored option \<Rightarrow> bool" where
  "holds_function (Some (Function cb)) = True"
| "holds_function v = False"

section \<open>The component over time\<close>

text \<open>
  What can happen to a mounted component: a tick of the interval, a pending load or
  delete settling, the retry button, the delete button of a record, the alert being
  closed, and a write to the refresh flag by another part of the application.
\<close>

datatype event =
    Poll bool bool
  | LoadSettles get_result
  | Retry
  | PressDelete string
  | CloseAlert
  | DeleteSettles callback delete_result
  | ExternalWrite string

fun step :: "string \<Rightarrow> event \<Rightarrow> cart \<Rightarrow> cart" where
  "step userId (Poll readOk writeOk) c = checkForRefresh userId readOk writeOk c"
| "step userId (LoadSettles r) c = fetchDonations_settle r c"
| "step userId Retry c = fetchDonations_begin userId c"
| "step userId (PressDelete donationId) c = handleDeleteDonation donationId c"
| "step userId CloseAlert c = snd (onClose c)"
| "step userId (DeleteSettles cb r) c = callback_settle cb r c"
| "step userId (ExternalWrite v) c = c\<lparr>needsRefresh := Some v\<rparr>"

fun run :: "string \<Rightarrow> event list \<Rightarrow> cart \<Rightarrow> cart" where
  "run userId [] c = c"
| "run userId (e # es) c = run userId es (step userId e c)"

fun internal :: "event \<Rightarrow> bool" where
  "internal (ExternalWrite v) = False"
| "internal e = True"

section \<open>Concrete records and states\<close>

definition shirts :: line_item where
  "shirts = \<lparr>label = ''shirt'', quantity = 2, images = Some [''a.jpg'', ''b.jpg'']\<rparr>"

definition coats :: line_item where
  "coats = \<lparr>label = ''coat'', quantity = 3, images = Some [''c.jpg'']\<rparr>"

definition donation1 :: DonationItem where
  "donation1 =
     \<lparr>donation_id = ''1'', donationType = ''clothes'', status = ''pending'',
      createdAt = ''2025-01-01'', clothingItems = Some [shirts, coats], toyItems = None,
      pickupDate = None\<rparr>"

definition donation2 :: DonationItem where
  "donation2 =
     \<lparr>donation_id = ''2'', donationType = ''toys'', status = ''completed'',
      createdAt = ''2025-01-02'', clothingItems = Some [shirts], toyItems = None,
      pickupDate = None\<rparr>"

text \<open>A cache that holds the two records, with nothing pending and no prompt.\<close>

definition loaded_cart :: cart where
  "loaded_cart = initial_cart\<lparr>donations := [donation1, donation2], isLoading := False\<rparr>"

section \<open>Properties of the load\<close>

lemma fetchDonations_requests:
  "requests (fetchDonations userId r c) = requests c @ [GetDonations userId]"
  by (cases r) (simp_all add: fetchDonations_def fetchDonations_settle_def fetchDonations_begin_def)

lemma fetchDonations_isLoading: "isLoading (fetchDonations userId r c) = False"
  by (simp add: fetchDonations_def fetchDonations_settle_def Let_def)

text \<open>
  Claim C6. A load whose response is an object with a truthy success flag and an array
  of donations makes \<open>donations\<close> that very array, element for element and in the
  same order, and leaves the error cleared.
\<close>

theorem fetchDonations_success:
  "donations (fetchDonations userId (GetObject True (IsArray ds)) c) = ds \<and>
   error (fetchDonations userId (GetObject True (IsArray ds)) c) = ''''"
  by (simp add: fetchDonations_def fetchDonations_settle_def fetchDonations_begin_def)

text \<open>
  Claim C1, as the specification states it, fails: a response whose success flag is
  set but whose \<^verbatim>\<open>donations\<close> field is not an array empties the cache and leaves the
  error cleared; it is not \<open>LoadFailed\<close>.
\<close>

theorem fetchDonations_not_array_counterexample:
  "donations (fetchDonations ''u1'' (GetObject True NotArray) loaded_cart) = [] \<and>
   error (fetchDonations ''u1'' (GetObject True NotArray) loaded_cart) = '''' \<and>
   error (fetchDonations ''u1'' (GetObject True NotArray) loaded_cart) \<noteq> LoadFailed"
  by (simp add: fetchDonations_def fetchDonations_settle_def fetchDonations_begin_def
      loaded_cart_def initial_cart_def LoadFailed_def)

text \<open>
  Claim C1, amended. Whatever the cache held before: a load whose request throws,
  whose response is falsy, or whose response has a falsy success flag (with or without
  an array) empties the cache and sets the error to \<open>LoadFailed\<close>; a load whose
  response has the success flag set but no array of donations empties the cache too,
  and leaves the error cleared.
\<close>

theorem fetchDonations_failure:
  "donations (fetchDonations userId GetThrows c) = [] \<and>
   error (fetchDonations userId GetThrows c) = LoadFailed \<and>
   donations (fetchDonations userId GetFalsy c) = [] \<and>
   error (fetchDonations userId GetFalsy c) = LoadFailed \<and>
   donations (fetchDonations userId (GetObject False field) c) = [] \<and>
   error (fetchDonations userId (GetObject False field) c) = LoadFailed \<and>
   donations (fetchDonations userId (GetObject True NotArray) c) = [] \<and>
   error (fetchDonations userId (GetObject True NotArray) c) = ''''"
  by (simp add: fetchDonations_def fetchDonations_settle_def fetchDonations_begin_def)

section \<open>Properties of the projections\<close>

lemma foldl_quantity:
  "foldl (\<lambda>total item. total + quantity item) a its = a + sum_list (map quantity its)"
  by (induction its arbitrary: a) simp_all

lemma addImages_spec: "addImages imgs item = imgs @ spec_images item"
  by (cases "images item") (simp_all add: addImages_def spec_images_def)

lemma foldl_addImages: "foldl addImages imgs its = imgs @ concat (map spec_images its)"
  by (induction its arbitrary: imgs) (simp_all add: addImages_spec)

lemma getItemCount_spec_items: "getItemCount d = sum_list (map quantity (spec_items d))"
  by (auto simp: getItemCount_def spec_items_def foldl_quantity)

lemma getAllImages_spec_items: "getAllImages d = concat (map spec_images (spec_items d))"
  by (cases "clothingItems d"; cases "toyItems d")
    (simp_all add: getAllImages_def spec_items_def foldl_addImages cong: if_cong)

text \<open>
  Claim C7. The image list of a record is the concatenation, in item order, of the
  image lists of its items, every image kept as often as it occurs: two items with
  images \<open>[a, b]\<close> and \<open>[c]\<close> give \<open>[a, b, c]\<close>, whatever \<open>a\<close>, \<open>b\<close> and \<open>c\<close> are,
  for a clothing donation and for a toy donation. The list is empty exactly when no
  item has an image.
\<close>

theorem getAllImages_concat:
  "getAllImages d = concat (map spec_images (spec_items d)) \<and>
   getAllImages (d\<lparr>donationType := ''clothes'',
       clothingItems := Some [i\<lparr>images := Some [a, b]\<rparr>, j\<lparr>images := Some [c]\<rparr>]\<rparr>)
     = [a, b, c] \<and>
   getAllImages (d\<lparr>donationType := ''toys'',
       toyItems := Some [i\<lparr>images := Some [a, b]\<rparr>, j\<lparr>images := Some [c]\<rparr>]\<rparr>)
     = [a, b, c] \<and>
   (getAllImages d = []) = list_all (\<lambda>item. spec_images item = []) (spec_items d)"
proof -
  have flat: "getAllImages r = concat (map spec_images (spec_items r))" for r
    by (rule getAllImages_spec_items)
  have none: "(getAllImages d = []) = list_all (\<lambda>item. spec_images item = []) (spec_items d)"
    by (simp add: flat list_all_iff)
  show ?thesis
    using none by (simp add: flat spec_items_def spec_images_def)
qed

text \<open>
  Claim C8. The item count of a record is the sum of the quantities of its items, and
  it is 0 when the record has no items. The count is a function of the record alone:
  it reads no state of the component and sets none, so asking again gives the same
  number.
\<close>

theorem getItemCount_sum:
  "getItemCount d = sum_list (map quantity (spec_items d)) \<and>
   (spec_items d = [] \<longrightarrow> getItemCount d = 0)"
  by (simp add: getItemCount_spec_items)

theorem getItemCount_sum_witness:
  "getItemCount donation1 = 5 \<and> spec_items (donation1\<lparr>clothingItems := Some []\<rparr>) = [] \<and>
   getItemCount (donation1\<lparr>clothingItems := Some []\<rparr>) = 0"
  using getItemCount_sum [of donation1]
    getItemCount_sum [of "donation1\<lparr>clothingItems := Some []\<rparr>"]
  by (simp add: spec_items_def donation1_def shirts_def coats_def)

text \<open>
  Claim C9. The projections read the list of the record's kind only: for a clothing
  donation the toy items can be anything, for a toy donation the clothing items can be
  anything, and the results do not change. When the list of the record's kind is
  absent the count is 0 and the image list is empty, whatever the other list holds.
  Both projections are total functions of the record: no branch of them fails.
\<close>

theorem projections_kind:
  "(donationType d = ''clothes'' \<longrightarrow>
      getItemCount (d\<lparr>toyItems := other\<rparr>) = getItemCount d \<and>
      getAllImages (d\<lparr>toyItems := other\<rparr>) = getAllImages d \<and>
      (clothingItems d = None \<longrightarrow> getItemCount d = 0 \<and> getAllImages d = [])) \<and>
   (donationType d = ''toys'' \<longrightarrow>
      getItemCount (d\<lparr>clothingItems := other\<rparr>) = getItemCount d \<and>
      getAllImages (d\<lparr>clothingItems := other\<rparr>) = getAllImages d \<and>
      (toyItems d = None \<longrightarrow> getItemCount d = 0 \<and> getAllImages d = []))"
  by (simp add: getItemCount_def getAllImages_def)

theorem projections_kind_witness:
  "donationType donation2 = ''toys'' \<and> toyItems donation2 = None \<and>
   clothingItems donation2 = Some [shirts] \<and>
   getItemCount donation2 = 0 \<and> getAllImages donation2 = [] \<and>
   getItemCount (donation2\<lparr>clothingItems := None\<rparr>) = 0"
  using projections_kind [of donation2 None]
  by (simp add: donation2_def)

section \<open>Properties of the delete\<close>

lemma filter_single_split:
  assumes "filter P xs = [r]"
  shows "\<exists>ys zs. xs = ys @ r # zs \<and> filter (\<lambda>x. \<not> P x) xs = ys @ zs \<and>
           list_all (\<lambda>x. \<not> P x) (ys @ zs)"
proof -
  from assms obtain ys zs where
    xs: "xs = ys @ r # zs" and ys: "\<forall>u\<in>set ys. \<not> P u" and r: "P r" and zs: "[] = filter P zs"
    unfolding filter_eq_Cons_iff by blast
  from zs have zs': "\<forall>v\<in>set zs. \<not> P v"
    by (metis filter_empty_conv)
  have "filter (\<lambda>x. \<not> P x) xs = ys @ zs"
    using ys zs' r by (simp add: xs)
  moreover have "list_all (\<lambda>x. \<not> P x) (ys @ zs)"
    using ys zs' by (auto simp: list_all_iff)
  ultimately show ?thesis using xs by blast
qed

lemma deleteRecord_acknowledged:
  "acknowledged r \<Longrightarrow>
   donations (deleteRecord donationId r c) =
     filter (\<lambda>donation. donation_id donation \<noteq> donationId) (donations c)"
  by (simp add: deleteRecord_def callback_begin_def)

text \<open>
  The delete as it runs in the component, started by the press of the delete button
  and then settling, leaves the same cache as \<open>deleteRecord\<close>.
\<close>

lemma deleteRecord_flow:
  "donations (callback_settle (DeleteCallback donationId (donations c)) r
      (handleDeleteDonation donationId c))
   = donations (deleteRecord donationId r c)"
  by (simp add: deleteRecord_def handleDeleteDonation_def callback_begin_def)

text \<open>
  Claim C2. When exactly one record of the cache has the identifier \<open>donationId\<close>
  (identifiers are unique in the data model) and the server acknowledges the delete,
  the cache afterwards is the cache before with that one record taken out: the
  records before it and after it are the same, in the same order, and none of them
  has the identifier.
\<close>

theorem deleteRecord_success:
  assumes "filter (\<lambda>donation. donation_id donation = donationId) (donations c) = [r]"
  shows "\<exists>before after.
           donations c = before @ r # after \<and>
           donations (deleteRecord donationId (DeleteObject True) c) = before @ after \<and>
           list_all (\<lambda>donation. donation_id donation \<noteq> donationId) (before @ after)"
  using filter_single_split [OF assms] by (simp add: deleteRecord_acknowledged)

text \<open>
  The scenario of the specification: the cache holds the records 1 and 2, the delete
  of 1 succeeds, and the cache holds the record 2.
\<close>

theorem deleteRecord_success_witness:
  "filter (\<lambda>donation. donation_id donation = ''1'') (donations loaded_cart) = [donation1] \<and>
   donations loaded_cart = [donation1, donation2] \<and>
   donations (deleteRecord ''1'' (DeleteObject True) loaded_cart) = [donation2]"
proof -
  have one: "filter (\<lambda>donation. donation_id donation = ''1'') (donations loaded_cart) = [donation1]"
    by (simp add: loaded_cart_def initial_cart_def donation1_def donation2_def)
  have all: "donations loaded_cart = [donation1, donation2]"
    by (simp add: loaded_cart_def initial_cart_def)
  from deleteRecord_success [OF one] obtain before after where
    split: "donations loaded_cart = before @ donation1 # after" and
    res: "donations (deleteRecord ''1'' (DeleteObject True) loaded_cart) = before @ after" and
    rest: "list_all (\<lambda>donation. donation_id donation \<noteq> ''1'') (before @ after)"
    by blast
  have "before = []"
  proof (cases before)
    case Nil
    then show ?thesis .
  next
    case (Cons b bs)
    with split all have "b = donation1" by simp
    with rest Cons show ?thesis by (simp add: donation1_def)
  qed
  with split all have "after = [donation2]" by simp
  with res \<open>before = []\<close> one all show ?thesis by simp
qed

text \<open>
  Claim C3, as the specification states it, fails: after a delete that the server
  refuses the cache is what it was, but the error state is not set; it is still
  empty, and the failure is in the alert.
\<close>

theorem deleteRecord_failure_counterexample:
  "donations (deleteRecord ''1'' (DeleteObject False) loaded_cart) = donations loaded_cart \<and>
   error (deleteRecord ''1'' (DeleteObject False) loaded_cart) = '''' \<and>
   alertTitle (deleteRecord ''1'' (DeleteObject False) loaded_cart) = ''Error''"
  by (simp add: deleteRecord_def callback_begin_def loaded_cart_def initial_cart_def)

text \<open>
  Claim C3, amended. When the delete request throws or its response is not an
  acknowledgment, the cache is exactly what it was before the call and the error
  state is what it was before the call; the failure is reported through the alert,
  which is shown with the title \<open>Error\<close>, the message
  \<open>Failed to delete donation. Please try again.\<close> with nothing stored as callback, and
  loading is cleared.
\<close>

theorem deleteRecord_failure:
  assumes "\<not> acknowledged r"
  shows "donations (deleteRecord donationId r c) = donations c \<and>
         error (deleteRecord donationId r c) = error c \<and>
         alertVisible (deleteRecord donationId r c) \<and>
         alertTitle (deleteRecord donationId r c) = ''Error'' \<and>
         alertMessage (deleteRecord donationId r c) =
           ''Failed to delete donation. Please try again.'' \<and>
         alertCallback (deleteRecord donationId r c) = None \<and>
         isLoading (deleteRecord donationId r c) = False"
  using assms by (simp add: deleteRecord_def callback_begin_def)

theorem deleteRecord_failure_witness:
  "\<not> acknowledged DeleteThrows \<and>
   donations (deleteRecord ''1'' DeleteThrows loaded_cart) = [donation1, donation2] \<and>
   error (deleteRecord ''1'' DeleteThrows loaded_cart) = '''' \<and>
   alertTitle (deleteRecord ''1'' DeleteThrows loaded_cart) = ''Error''"
  using deleteRecord_failure [of DeleteThrows "''1''" loaded_cart]
  by (simp add: loaded_cart_def initial_cart_def)

section \<open>Properties of the confirmation prompt\<close>

lemma callback_settle_alert:
  "alertCallback (callback_settle cb r c) = None \<and> alertVisible (callback_settle cb r c) \<and>
   requests (callback_settle cb r c) = requests c \<and>
   needsRefresh (callback_settle cb r c) = needsRefresh c"
  by (cases cb) simp

text \<open>
  The press of the delete button, for any record and any state: the delete request is
  issued by the press itself, and a promise is stored.
\<close>

lemma handleDeleteDonation_press:
  "requests (handleDeleteDonation donationId c) = requests c @ [DeleteDonation donationId] \<and>
   isLoading (handleDeleteDonation donationId c) \<and>
   alertVisible (handleDeleteDonation donationId c) \<and>
   alertCallback (handleDeleteDonation donationId c) = Some Promise"
  by (simp add: handleDeleteDonation_def callback_begin_def)

text \<open>Closing a prompt that holds a promise raises, and issues no request.\<close>

lemma onClose_promise:
  "alertCallback c = Some Promise \<Longrightarrow>
   fst (onClose c) = Some TypeError \<and> requests (snd (onClose c)) = requests c"
  by (simp add: onClose_def)

text \<open>Closing when nothing is stored and the prompt is hidden changes nothing.\<close>

lemma onClose_idle:
  "alertCallback c = None \<Longrightarrow> alertVisible c = False \<Longrightarrow> onClose c = (None, c)"
  by (simp add: onClose_def)

text \<open>
  The component never stores a function: whatever happens to it, a state that holds
  no function is followed by a state that holds none. So no closing of the prompt
  ever issues a request.
\<close>

lemma step_no_function:
  "\<not> holds_function (alertCallback c) \<Longrightarrow> \<not> holds_function (alertCallback (step userId e c))"
  by (cases e)
    (auto simp: checkForRefresh_def fetchDonations_begin_def fetchDonations_settle_def
      handleDeleteDonation_def onClose_def Let_def callback_begin_def callback_settle_alert
      split: option.split stored.split get_result.split)

lemma run_no_function:
  "\<not> holds_function (alertCallback c) \<Longrightarrow> \<not> holds_function (alertCallback (run userId es c))"
  by (induction es arbitrary: c) (simp_all add: step_no_function)

lemma onClose_no_request:
  "\<not> holds_function (alertCallback c) \<Longrightarrow> requests (snd (onClose c)) = requests c"
  by (cases "alertCallback c" rule: holds_function.cases) (simp_all add: onClose_def)

lemma run_onClose_no_request:
  "requests (snd (onClose (run userId es initial_cart))) = requests (run userId es initial_cart)"
  by (rule onClose_no_request, rule run_no_function) (simp add: initial_cart_def)

text \<open>
  Claim C4. The specification has the action attached to a confirmation invoked
  exactly once by the resolution, and by nothing else; the comment
  \<^verbatim>\<open>Set callback for confirmation\<close> says the same. The code misses it. With the
  records 1 and 2 in the cache and no prompt, pressing the delete button of record 1
  issues the delete request at once, before any resolution, sets loading and stores a
  promise. The resolution that follows hides the prompt, raises a \<^verbatim>\<open>TypeError\<close> and
  invokes nothing: the one request is the one of the press, and the promise is still
  stored.
\<close>

theorem handleDeleteDonation_deletes_unconfirmed:
  "requests (handleDeleteDonation ''1'' loaded_cart) = [DeleteDonation ''1''] \<and>
   isLoading (handleDeleteDonation ''1'' loaded_cart) = True \<and>
   alertVisible (handleDeleteDonation ''1'' loaded_cart) = True \<and>
   alertCallback (handleDeleteDonation ''1'' loaded_cart) = Some Promise \<and>
   fst (onClose (handleDeleteDonation ''1'' loaded_cart)) = Some TypeError \<and>
   requests (snd (onClose (handleDeleteDonation ''1'' loaded_cart))) = [DeleteDonation ''1''] \<and>
   alertVisible (snd (onClose (handleDeleteDonation ''1'' loaded_cart))) = False \<and>
   alertCallback (snd (onClose (handleDeleteDonation ''1'' loaded_cart))) = Some Promise"
  by (simp add: onClose_def handleDeleteDonation_def callback_begin_def loaded_cart_def
      initial_cart_def)

section \<open>Properties of the poll\<close>

text \<open>
  Claim C5. A tick whose read of the flag succeeds issues a load exactly when the
  flag is \<open>true\<close>. When the flag is \<open>true\<close>, it issues one load and no other
  request, and (the write succeeding) the flag is \<open>false\<close> afterwards, by one write.
  When the flag is anything else, \<open>false\<close> or absent, the tick changes nothing: no
  load is issued and the storage is not written.
\<close>

theorem checkForRefresh_poll:
  "(requests (checkForRefresh userId True writeOk c) \<noteq> requests c)
     = (needsRefresh c = Some ''true'') \<and>
   (needsRefresh c = Some ''true'' \<longrightarrow>
      requests (checkForRefresh userId True writeOk c) = requests c @ [GetDonations userId] \<and>
      needsRefresh (checkForRefresh userId True True c) = Some ''false'' \<and>
      storageWrites (checkForRefresh userId True True c) = storageWrites c @ [''false'']) \<and>
   (needsRefresh c \<noteq> Some ''true'' \<longrightarrow> checkForRefresh userId readOk writeOk c = c)"
  by (simp add: checkForRefresh_def fetchDonations_begin_def Let_def)

theorem checkForRefresh_poll_witness:
  "needsRefresh (loaded_cart\<lparr>needsRefresh := Some ''true''\<rparr>) = Some ''true'' \<and>
   requests (checkForRefresh ''u1'' True True (loaded_cart\<lparr>needsRefresh := Some ''true''\<rparr>))
     = [GetDonations ''u1''] \<and>
   needsRefresh (checkForRefresh ''u1'' True True (loaded_cart\<lparr>needsRefresh := Some ''true''\<rparr>))
     = Some ''false'' \<and>
   needsRefresh (loaded_cart\<lparr>needsRefresh := Some ''false''\<rparr>) \<noteq> Some ''true'' \<and>
   checkForRefresh ''u1'' True True (loaded_cart\<lparr>needsRefresh := Some ''false''\<rparr>)
     = loaded_cart\<lparr>needsRefresh := Some ''false''\<rparr>"
  using
    checkForRefresh_poll [of "''u1''" True "loaded_cart\<lparr>needsRefresh := Some ''true''\<rparr>"]
    checkForRefresh_poll [of "''u1''" True "loaded_cart\<lparr>needsRefresh := Some ''false''\<rparr>" True]
  by (simp add: loaded_cart_def initial_cart_def)

lemma fetchDonations_settle_env:
  "needsRefresh (fetchDonations_settle r c) = needsRefresh c \<and>
   requests (fetchDonations_settle r c) = requests c"
  by (cases r) (simp_all add: fetchDonations_settle_def)

text \<open>The component itself never writes anything but \<open>false\<close> to the flag.\<close>

lemma step_keeps_false:
  assumes "internal e" and "needsRefresh c = Some ''false''"
  shows "needsRefresh (step userId e c) = Some ''false''"
  using assms
  by (cases e)
    (simp_all add: checkForRefresh_def fetchDonations_settle_env fetchDonations_begin_def
      handleDeleteDonation_def onClose_def Let_def callback_begin_def callback_settle_alert
      split: option.split stored.split)

lemma run_keeps_false:
  "list_all internal es \<Longrightarrow> needsRefresh c = Some ''false'' \<Longrightarrow>
   needsRefresh (run userId es c) = Some ''false''"
  by (induction es arbitrary: c) (simp_all add: step_keeps_false)

lemma checkForRefresh_false:
  "needsRefresh c = Some ''false'' \<Longrightarrow> checkForRefresh userId readOk writeOk c = c"
  by (simp add: checkForRefresh_def)

lemma checkForRefresh_true:
  "needsRefresh c = Some ''true'' \<Longrightarrow>
   requests (checkForRefresh userId True writeOk c) = requests c @ [GetDonations userId]"
  by (simp add: checkForRefresh_def fetchDonations_begin_def Let_def)

text \<open>
  Claim C10. A tick that reads the flag as \<open>true\<close> (read and write succeeding) leaves
  the flag \<open>false\<close> while the load it started is still pending, and the flag stays
  \<open>false\<close> however that load settles, failure included. From then on, through any
  history of the component in which nothing outside writes the flag, the flag is
  \<open>false\<close> and a tick changes nothing, so the load is not issued again by a tick.
  Once something outside has written \<open>true\<close>, the next tick issues a load again.
\<close>

theorem poll_reset_not_retried:
  assumes dirty: "needsRefresh c = Some ''true''" and quiet: "list_all internal es"
  shows "needsRefresh (checkForRefresh userId True True c) = Some ''false'' \<and>
         isLoading (checkForRefresh userId True True c) \<and>
         requests (checkForRefresh userId True True c) = requests c @ [GetDonations userId] \<and>
         needsRefresh (fetchDonations_settle r (checkForRefresh userId True True c))
           = Some ''false'' \<and>
         needsRefresh (run userId es (checkForRefresh userId True True c)) = Some ''false'' \<and>
         checkForRefresh userId readOk writeOk (run userId es (checkForRefresh userId True True c))
           = run userId es (checkForRefresh userId True True c) \<and>
         requests (checkForRefresh userId True writeOk
             (step userId (ExternalWrite ''true'')
               (run userId es (checkForRefresh userId True True c))))
           = requests (run userId es (checkForRefresh userId True True c))
               @ [GetDonations userId]"
proof -
  let ?c = "checkForRefresh userId True True c"
  have reset: "needsRefresh ?c = Some ''false''"
    using dirty by (simp add: checkForRefresh_def Let_def)
  have pending: "isLoading ?c" "requests ?c = requests c @ [GetDonations userId]"
    using dirty by (simp_all add: checkForRefresh_def Let_def fetchDonations_begin_def)
  have settled: "needsRefresh (fetchDonations_settle r ?c) = Some ''false''"
    using reset by (simp add: fetchDonations_settle_env)
  have later: "needsRefresh (run userId es ?c) = Some ''false''"
    using quiet reset by (rule run_keeps_false)
  then have idle: "checkForRefresh userId readOk writeOk (run userId es ?c) = run userId es ?c"
    by (rule checkForRefresh_false)
  have again: "requests (checkForRefresh userId True writeOk
      (step userId (ExternalWrite ''true'') (run userId es ?c)))
    = requests (run userId es ?c) @ [GetDonations userId]"
    by (simp add: checkForRefresh_true)
  from reset pending settled later idle again show ?thesis by simp
qed

text \<open>
  A run: the flag is \<open>true\<close>, a tick starts the load, the load fails, and two more
  ticks pass. One load was issued in all, the error is showing, the flag is \<open>false\<close>.
\<close>

theorem poll_reset_not_retried_witness:
  "needsRefresh (loaded_cart\<lparr>needsRefresh := Some ''true''\<rparr>) = Some ''true'' \<and>
   list_all internal [LoadSettles GetThrows, Poll True True, Poll True True] \<and>
   needsRefresh (run ''u1'' [LoadSettles GetThrows, Poll True True, Poll True True]
      (checkForRefresh ''u1'' True True (loaded_cart\<lparr>needsRefresh := Some ''true''\<rparr>)))
     = Some ''false'' \<and>
   requests (run ''u1'' [LoadSettles GetThrows, Poll True True, Poll True True]
      (checkForRefresh ''u1'' True True (loaded_cart\<lparr>needsRefresh := Some ''true''\<rparr>)))
     = [GetDonations ''u1''] \<and>
   error (run ''u1'' [LoadSettles GetThrows, Poll True True, Poll True True]
      (checkForRefresh ''u1'' True True (loaded_cart\<lparr>needsRefresh := Some ''true''\<rparr>)))
     = LoadFailed"
proof -
  let ?c = "loaded_cart\<lparr>needsRefresh := Some ''true''\<rparr>"
  let ?es = "[LoadSettles GetThrows, Poll True True, Poll True True]"
  have dirty: "needsRefresh ?c = Some ''true''"
    by simp
  have quiet: "list_all internal ?es"
    by simp
  have flag: "needsRefresh (run ''u1'' ?es (checkForRefresh ''u1'' True True ?c)) = Some ''false''"
    using poll_reset_not_retried [OF dirty quiet] by blast
  let ?c1 = "checkForRefresh ''u1'' True True ?c"
  have reset: "needsRefresh (fetchDonations_settle GetThrows ?c1) = Some ''false''"
    using poll_reset_not_retried [OF dirty quiet] by blast
  have "run ''u1'' ?es ?c1 = fetchDonations_settle GetThrows ?c1"
    by (simp add: checkForRefresh_false [OF reset])
  moreover have "requests ?c1 = [GetDonations ''u1'']"
    by (simp add: checkForRefresh_true loaded_cart_def initial_cart_def)
  moreover have "error (fetchDonations_settle GetThrows ?c1) = LoadFailed"
    by (simp add: fetchDonations_settle_def)
  ultimately have
    "requests (run ''u1'' ?es ?c1) = [GetDonations ''u1'']"
    "error (run ''u1'' ?es ?c1) = LoadFailed"
    by (simp_all add: fetchDonations_settle_env)
  with dirty quiet flag show ?thesis by simp
qed

end
